theory Spec2Isabelle
  imports Main
begin

section \<open>Data model\<close>

text \<open>
  The recruitment back end keeps two collections of documents: candidates
  (\<^verbatim>\<open>models/Candidate.js\<close>) and organizations, the tenants
  (\<^verbatim>\<open>models/Organization.js\<close>). Object ids are opaque strings, dates are
  natural numbers (a clock value handed to every operation as \<open>now\<close>).

  The user-facing texts of the source are Persian sentences. Each fixed sentence is
  named by a constructor of \<open>msg\<close>; \<open>Txt\<close> carries a text that comes from the
  client. \<open>StageChangedFromTo old new\<close> is the template
  \<^verbatim>\<open>`... "${oldStage}" ... "${newStage}" ...`\<close> used both as a history action and
  as the message of the stage route.
\<close>

type_synonym oid = string

datatype msg =
    Txt string
  | CandidateCreated
  | InfoEdited
  | StageChangedFromTo string string
  | CandidateArchived
  | CandidateUnarchived
  | CandidateNotFound
  | CandidateAdded
  | InfoUpdated
  | CommentAdded
  | NameRequired
  | EmailInvalid
  | PhoneRequired
  | PositionRequired
  | SourceRequired
  | NewStageRequired
  | CommentTextRequired
  | CandidateLimitReached
  | EmailAlreadyRegistered
  | ErrorListingCandidates
  | ErrorCreatingCandidate
  | ErrorUpdatingCandidate
  | ErrorUploadingTestResult
  | ErrorChangingStage
  | OrganizationNotFound
  | StageNotFound
  | CoreStagesNotEditable
  | CoreStagesNotDeletable
  | CandidatesInStage nat
  | StageUpdated
  | StageDeleted
  | StagesReordered
  | StageIdsRequired
  | AdminsOnly
  | TestFileRequired
  | TestResultUploaded

record user =
  user_id :: oid
  user_name :: string
  username :: string
  isAdmin :: bool

record history_entry =
  h_user :: string
  h_action :: msg
  h_details :: "string option"
  h_timestamp :: nat

record comment =
  c_user :: string
  c_text :: string
  c_timestamp :: nat

datatype test_status = not_sent | pending | passed | failed | review

text \<open>
  In the schema of a test result the entry \<^verbatim>\<open>file\<close> is written
  \<^verbatim>\<open>{name: String, type: String, url: String, uploadedAt: Date}\<close>. Its key \<^verbatim>\<open>type\<close>
  makes this the declaration of one path of type String, so \<open>test_file\<close> holds a
  string. \<open>file_info\<close> is the object the upload route builds.
\<close>

record file_info =
  file_name :: string
  file_type :: string
  file_url :: string
  uploadedAt :: nat

record test_result =
  testId :: string
  status :: test_status
  score :: "int option"
  test_notes :: "string option"
  sentDate :: "nat option"
  deadlineHours :: "int option"
  test_file :: "string option"
  aiSummary :: "string option"

record candidate =
  doc_id :: oid
  name :: string
  email :: string
  phone :: string
  position :: string
  stage :: string
  source :: string
  rating :: int
  interviewDate :: "string option"
  interviewTime :: "string option"
  interviewTimeChanged :: bool
  history :: "history_entry list"
  comments :: "comment list"
  hasResume :: bool
  resumeUrl :: "string option"
  testResults :: "test_result list"
  organization :: oid
  createdBy :: oid
  lastModifiedBy :: "oid option"
  tags :: "string list"
  customFields :: "(string \<times> string) list"
  isArchived :: bool
  archivedAt :: "nat option"
  archivedBy :: "oid option"
  createdAt :: nat
  updatedAt :: nat

record stage_def =
  stage_id :: string
  title :: string
  isCore :: bool
  color :: "string option"
  stage_order :: int

record org =
  org_id :: oid
  org_name :: string
  stages :: "stage_def list"
  sources :: "string list"
  maxUsers :: nat
  maxCandidates :: nat

record db =
  candidates :: "candidate list"
  organizations :: "org list"

text \<open>
  What the code takes from its libraries and cannot be read off the repository: the
  e-mail check of express-validator, the string functions behind the schema setters
  \<^verbatim>\<open>trim\<close> and \<^verbatim>\<open>lowercase\<close>, the regular-expression engine of the store
  (\<open>regex_i p\<close> is the case-insensitive matcher compiled from pattern \<open>p\<close>, \<open>None\<close>
  when the store refuses the pattern), the store's ordering of documents by a field, and
  the keys that name a member of a document object apart from the paths of the schema
  (\<open>document_member\<close>; the method \<^verbatim>\<open>save\<close> is one for sure).
\<close>

record runtime =
  isEmail :: "string \<Rightarrow> bool"
  trim :: "string \<Rightarrow> string"
  toLowerCase :: "string \<Rightarrow> string"
  regex_i :: "string \<Rightarrow> (string \<Rightarrow> bool) option"
  field_le :: "string \<Rightarrow> candidate \<Rightarrow> candidate \<Rightarrow> bool"
  document_member :: "string \<Rightarrow> bool"

text \<open>
  Every route answers with the envelope \<^verbatim>\<open>{success, message?, data?, errors?}\<close> and
  an HTTP status.
\<close>

datatype 'a response =
  Response (http_status: nat) (success: bool) (message: "msg option")
    (payload: "'a option") (errors: "(string \<times> msg) list")

definition ok :: "msg option \<Rightarrow> 'a \<Rightarrow> 'a response" where
  "ok m d = Response 200 True m (Some d) []"

definition fail :: "nat \<Rightarrow> msg \<Rightarrow> 'a response" where
  "fail st m = Response st False (Some m) None []"

definition invalid :: "(string \<times> msg) list \<Rightarrow> 'a response" where
  "invalid es = Response 400 False None None es"


section \<open>Candidate documents and their methods\<close>

text \<open>
  The candidates collection is a list of documents. \<open>findOne\<close> is the query
  \<^verbatim>\<open>Candidate.findOne({_id, organization})\<close> that every candidate route starts
  with: the tenant of the request is part of the filter.
\<close>

definition findOne :: "oid \<Rightarrow> oid \<Rightarrow> candidate list \<Rightarrow> candidate option" where
  "findOne i tenant cs = find (\<lambda>c. doc_id c = i \<and> organization c = tenant) cs"

text \<open>
  Before a document is written, \<^verbatim>\<open>save()\<close> runs the validators of the schema and the
  pre-save hook, and rejects when one fails. \<open>validate\<close> is their conjunction: the
  required strings are not empty, a non-empty e-mail matches the pattern
  \<^verbatim>\<open>/^\w+([.-]?\w+)*@\w+([.-]?\w+)*(\.\w{2,3})+$/\<close>, the rating lies between 0 and 5,
  organization and creator are set, every history entry has a user and an action,
  every comment a user and a text, every test result an id and a score between 0
  and 100. The pattern is written as a regular expression over the classes it uses and
  matched by derivatives.
\<close>

datatype cclass = Word | Lit char

datatype rexp = RNone | REps | RSym cclass | RAlt rexp rexp | RCat rexp rexp | RStar rexp

definition word_char :: "char \<Rightarrow> bool" where
  \<comment> \<open>the class \<^verbatim>\<open>\w\<close>\<close>
  "word_char ch =
     (ch \<in> set ''abcdefghijklmnopqrstuvwxyzABCDEFGHIJKLMNOPQRSTUVWXYZ0123456789_'')"

fun in_class :: "cclass \<Rightarrow> char \<Rightarrow> bool" where
  "in_class Word ch = word_char ch"
| "in_class (Lit l) ch = (ch = l)"

fun nullable :: "rexp \<Rightarrow> bool" where
  "nullable RNone = False"
| "nullable REps = True"
| "nullable (RSym k) = False"
| "nullable (RAlt r s) = (nullable r \<or> nullable s)"
| "nullable (RCat r s) = (nullable r \<and> nullable s)"
| "nullable (RStar r) = True"

fun alt :: "rexp \<Rightarrow> rexp \<Rightarrow> rexp" where
  "alt RNone s = s"
| "alt r RNone = r"
| "alt r s = RAlt r s"

fun cat :: "rexp \<Rightarrow> rexp \<Rightarrow> rexp" where
  "cat RNone s = RNone"
| "cat r RNone = RNone"
| "cat REps s = s"
| "cat r s = RCat r s"

fun deriv :: "char \<Rightarrow> rexp \<Rightarrow> rexp" where
  "deriv ch RNone = RNone"
| "deriv ch REps = RNone"
| "deriv ch (RSym k) = (if in_class k ch then REps else RNone)"
| "deriv ch (RAlt r s) = alt (deriv ch r) (deriv ch s)"
| "deriv ch (RCat r s) =
     (if nullable r then alt (cat (deriv ch r) s) (deriv ch s) else cat (deriv ch r) s)"
| "deriv ch (RStar r) = cat (deriv ch r) (RStar r)"

fun full_match :: "rexp \<Rightarrow> string \<Rightarrow> bool" where
  "full_match r [] = nullable r"
| "full_match r (ch # t) = full_match (deriv ch r) t"

definition one_or_more :: "rexp \<Rightarrow> rexp" where
  "one_or_more r = RCat r (RStar r)"

definition optional :: "rexp \<Rightarrow> rexp" where
  "optional r = RAlt REps r"

definition email_pattern :: rexp where
  "email_pattern =
     (let w = RSym Word;
          dot = RSym (Lit CHR ''.'');
          labels = RCat (one_or_more w)
                     (RStar (RCat (optional (RAlt dot (RSym (Lit CHR ''-'')))) (one_or_more w)));
          tld = RCat dot (RCat w (RCat w (optional w)))
      in RCat labels (RCat (RSym (Lit CHR ''@'')) (RCat labels (one_or_more tld))))"

definition valid_entry :: "history_entry \<Rightarrow> bool" where
  "valid_entry h = (h_user h \<noteq> [] \<and> h_action h \<noteq> Txt [])"

definition valid_comment :: "comment \<Rightarrow> bool" where
  "valid_comment k = (c_user k \<noteq> [] \<and> c_text k \<noteq> [])"

definition valid_result :: "test_result \<Rightarrow> bool" where
  "valid_result t =
     (testId t \<noteq> [] \<and> (case score t of None \<Rightarrow> True | Some n \<Rightarrow> 0 \<le> n \<and> n \<le> 100))"

definition validate :: "candidate \<Rightarrow> bool" where
  "validate c =
     (name c \<noteq> [] \<and> email c \<noteq> [] \<and> full_match email_pattern (email c) \<and>
      phone c \<noteq> [] \<and> position c \<noteq> [] \<and> stage c \<noteq> [] \<and> source c \<noteq> [] \<and>
      0 \<le> rating c \<and> rating c \<le> 5 \<and>
      organization c \<noteq> [] \<and> createdBy c \<noteq> [] \<and>
      list_all valid_entry (history c) \<and> list_all valid_comment (comments c) \<and>
      list_all valid_result (testResults c))"

text \<open>
  A successful \<^verbatim>\<open>save()\<close> of a loaded document writes it over the stored document
  with the same \<^verbatim>\<open>_id\<close> and stamps \<^verbatim>\<open>updatedAt\<close> (\<^verbatim>\<open>timestamps: true\<close>). The
  document methods below are applied to stored documents, which have passed the
  validators, and give them values that pass (for an acting user with a name), so their
  write is \<open>save\<close> itself. The routes that copy values of the request into a document
  run \<open>validate\<close> first. One clock value \<open>now\<close> stands for the dates taken during a
  request.
\<close>

fun updateOne :: "candidate \<Rightarrow> candidate list \<Rightarrow> candidate list" where
  "updateOne c [] = []"
| "updateOne c (d # ds) = (if doc_id d = doc_id c then c # ds else d # updateOne c ds)"

definition save :: "nat \<Rightarrow> candidate \<Rightarrow> candidate list \<Rightarrow> candidate \<times> candidate list" where
  "save now c cs = (let c' = c\<lparr>updatedAt := now\<rparr> in (c', updateOne c' cs))"

definition display_name :: "user \<Rightarrow> string" where
  \<comment> \<open>\<^verbatim>\<open>user.name || user.username\<close>\<close>
  "display_name u = (if user_name u \<noteq> [] then user_name u else username u)"

definition addHistoryEntry ::
  "user \<Rightarrow> msg \<Rightarrow> string option \<Rightarrow> nat \<Rightarrow> candidate \<Rightarrow> candidate list
     \<Rightarrow> candidate \<times> candidate list" where
  "addHistoryEntry u action details now c cs =
     save now
       (c\<lparr>history := history c @
           [\<lparr>h_user = display_name u, h_action = action, h_details = details,
             h_timestamp = now\<rparr>]\<rparr>) cs"

definition addComment ::
  "user \<Rightarrow> string \<Rightarrow> nat \<Rightarrow> candidate \<Rightarrow> candidate list \<Rightarrow> candidate \<times> candidate list" where
  "addComment u txt now c cs =
     save now
       (c\<lparr>comments := comments c @
           [\<lparr>c_user = display_name u, c_text = txt, c_timestamp = now\<rparr>]\<rparr>) cs"

text \<open>
  \<^verbatim>\<open>updateStage\<close> saves first and then fetches the socket handle with
  \<^verbatim>\<open>require('../server').io\<close>. \<open>io\<close> says whether that module hands out a handle; without
  one \<^verbatim>\<open>io.to\<close> throws after the document has been written, and the method returns
  no document (\<open>None\<close>). The broadcast itself is not part of the model.
\<close>

definition updateStage ::
  "bool \<Rightarrow> string \<Rightarrow> user \<Rightarrow> nat \<Rightarrow> candidate \<Rightarrow> candidate list
     \<Rightarrow> candidate option \<times> candidate list" where
  "updateStage io newStage u now c cs =
     (let oldStage = stage c;
          c1 = c\<lparr>stage := newStage, lastModifiedBy := Some (user_id u)\<rparr>;
          (c2, cs2) = addHistoryEntry u (StageChangedFromTo oldStage newStage) None now c1 cs
      in (if io then Some c2 else None, cs2))"

definition archive :: "user \<Rightarrow> nat \<Rightarrow> candidate \<Rightarrow> candidate list \<Rightarrow> candidate \<times> candidate list" where
  "archive u now c cs =
     (let c1 = c\<lparr>isArchived := True, archivedAt := Some now, archivedBy := Some (user_id u),
                 stage := ''archived''\<rparr>;
          (c2, cs2) = addHistoryEntry u CandidateArchived None now c1 cs
      in save now c2 cs2)"

definition unarchive :: "user \<Rightarrow> nat \<Rightarrow> candidate \<Rightarrow> candidate list \<Rightarrow> candidate \<times> candidate list" where
  "unarchive u now c cs =
     (let c1 = c\<lparr>isArchived := False, archivedAt := None, archivedBy := None,
                 stage := ''inbox''\<rparr>;
          (c2, cs2) = addHistoryEntry u CandidateUnarchived None now c1 cs
      in save now c2 cs2)"

section \<open>Request bodies\<close>

text \<open>
  A JSON body for a candidate is a list of key/value pairs. Each pair is a
  \<open>field_update\<close>: a schema path with a value of the path's type, or a key outside the
  schema (\<open>Set_unknown\<close>). \<open>key_of\<close> is the JSON key and \<open>assign\<close> is the assignment
  \<^verbatim>\<open>candidate[key] = value\<close>, which by itself would overwrite any path, the id and
  the history included; \<^verbatim>\<open>name\<close> and \<^verbatim>\<open>phone\<close> are trimmed and \<^verbatim>\<open>email\<close> is
  lower-cased by the schema setters. \<open>isNew\<close> tells a document under construction
  from a loaded one, whose \<^verbatim>\<open>createdAt\<close> cannot be changed.
\<close>

datatype field_update =
    Set_id oid
  | Set_name string
  | Set_email string
  | Set_phone string
  | Set_position string
  | Set_stage string
  | Set_source string
  | Set_rating int
  | Set_interviewDate "string option"
  | Set_interviewTime "string option"
  | Set_interviewTimeChanged bool
  | Set_history "history_entry list"
  | Set_comments "comment list"
  | Set_hasResume bool
  | Set_resumeUrl "string option"
  | Set_testResults "test_result list"
  | Set_organization oid
  | Set_createdBy oid
  | Set_lastModifiedBy "oid option"
  | Set_tags "string list"
  | Set_customFields "(string \<times> string) list"
  | Set_isArchived bool
  | Set_archivedAt "nat option"
  | Set_archivedBy "oid option"
  | Set_createdAt nat
  | Set_updatedAt nat
  | Set_unknown string

fun key_of :: "field_update \<Rightarrow> string" where
  "key_of (Set_id _) = ''_id''"
| "key_of (Set_name _) = ''name''"
| "key_of (Set_email _) = ''email''"
| "key_of (Set_phone _) = ''phone''"
| "key_of (Set_position _) = ''position''"
| "key_of (Set_stage _) = ''stage''"
| "key_of (Set_source _) = ''source''"
| "key_of (Set_rating _) = ''rating''"
| "key_of (Set_interviewDate _) = ''interviewDate''"
| "key_of (Set_interviewTime _) = ''interviewTime''"
| "key_of (Set_interviewTimeChanged _) = ''interviewTimeChanged''"
| "key_of (Set_history _) = ''history''"
| "key_of (Set_comments _) = ''comments''"
| "key_of (Set_hasResume _) = ''hasResume''"
| "key_of (Set_resumeUrl _) = ''resumeUrl''"
| "key_of (Set_testResults _) = ''testResults''"
| "key_of (Set_organization _) = ''organization''"
| "key_of (Set_createdBy _) = ''createdBy''"
| "key_of (Set_lastModifiedBy _) = ''lastModifiedBy''"
| "key_of (Set_tags _) = ''tags''"
| "key_of (Set_customFields _) = ''customFields''"
| "key_of (Set_isArchived _) = ''isArchived''"
| "key_of (Set_archivedAt _) = ''archivedAt''"
| "key_of (Set_archivedBy _) = ''archivedBy''"
| "key_of (Set_createdAt _) = ''createdAt''"
| "key_of (Set_updatedAt _) = ''updatedAt''"
| "key_of (Set_unknown k) = k"

fun assign :: "runtime \<Rightarrow> bool \<Rightarrow> candidate \<Rightarrow> field_update \<Rightarrow> candidate" where
  "assign L isNew c (Set_id v) = c\<lparr>doc_id := v\<rparr>"
| "assign L isNew c (Set_name v) = c\<lparr>name := trim L v\<rparr>"
| "assign L isNew c (Set_email v) = c\<lparr>email := toLowerCase L v\<rparr>"
| "assign L isNew c (Set_phone v) = c\<lparr>phone := trim L v\<rparr>"
| "assign L isNew c (Set_position v) = c\<lparr>position := v\<rparr>"
| "assign L isNew c (Set_stage v) = c\<lparr>stage := v\<rparr>"
| "assign L isNew c (Set_source v) = c\<lparr>source := v\<rparr>"
| "assign L isNew c (Set_rating v) = c\<lparr>rating := v\<rparr>"
| "assign L isNew c (Set_interviewDate v) = c\<lparr>interviewDate := v\<rparr>"
| "assign L isNew c (Set_interviewTime v) = c\<lparr>interviewTime := v\<rparr>"
| "assign L isNew c (Set_interviewTimeChanged v) = c\<lparr>interviewTimeChanged := v\<rparr>"
| "assign L isNew c (Set_history v) = c\<lparr>history := v\<rparr>"
| "assign L isNew c (Set_comments v) = c\<lparr>comments := v\<rparr>"
| "assign L isNew c (Set_hasResume v) = c\<lparr>hasResume := v\<rparr>"
| "assign L isNew c (Set_resumeUrl v) = c\<lparr>resumeUrl := v\<rparr>"
| "assign L isNew c (Set_testResults v) = c\<lparr>testResults := v\<rparr>"
| "assign L isNew c (Set_organization v) = c\<lparr>organization := v\<rparr>"
| "assign L isNew c (Set_createdBy v) = c\<lparr>createdBy := v\<rparr>"
| "assign L isNew c (Set_lastModifiedBy v) = c\<lparr>lastModifiedBy := v\<rparr>"
| "assign L isNew c (Set_tags v) = c\<lparr>tags := v\<rparr>"
| "assign L isNew c (Set_customFields v) = c\<lparr>customFields := v\<rparr>"
| "assign L isNew c (Set_isArchived v) = c\<lparr>isArchived := v\<rparr>"
| "assign L isNew c (Set_archivedAt v) = c\<lparr>archivedAt := v\<rparr>"
| "assign L isNew c (Set_archivedBy v) = c\<lparr>archivedBy := v\<rparr>"
| "assign L isNew c (Set_createdAt v) = (if isNew then c\<lparr>createdAt := v\<rparr> else c)"
| "assign L isNew c (Set_updatedAt v) = c\<lparr>updatedAt := v\<rparr>"
| "assign L isNew c (Set_unknown k) = c"

text \<open>
  express-validator reads a field of the body as a string, the empty string when the key
  is absent: \<open>body_string k\<close> for the string-valued keys the validators look at.
\<close>

fun string_value :: "field_update \<Rightarrow> string option" where
  "string_value (Set_name v) = Some v"
| "string_value (Set_email v) = Some v"
| "string_value (Set_phone v) = Some v"
| "string_value (Set_position v) = Some v"
| "string_value (Set_source v) = Some v"
| "string_value _ = None"

definition body_field :: "string \<Rightarrow> field_update list \<Rightarrow> string option" where
  "body_field k body =
     (case find (\<lambda>u. key_of u = k) (rev body) of
        None \<Rightarrow> None
      | Some u \<Rightarrow> string_value u)"

definition body_string :: "string \<Rightarrow> field_update list \<Rightarrow> string" where
  "body_string k body = (case body_field k body of None \<Rightarrow> [] | Some v \<Rightarrow> v)"

definition check :: "bool \<Rightarrow> string \<Rightarrow> msg \<Rightarrow> (string \<times> msg) list" where
  \<comment> \<open>one validator of a chain: its error entry when it fails\<close>
  "check passes field m = (if passes then [] else [(field, m)])"


section \<open>The candidate routes\<close>

text \<open>
  Each route takes the authenticated context the \<^verbatim>\<open>auth\<close> middleware leaves on the
  request (the tenant \<^verbatim>\<open>req.organization\<close> and the user \<^verbatim>\<open>req.user\<close>), runs its
  validators, then its handler, and returns the response with the data base after the
  request. Populating \<^verbatim>\<open>createdBy\<close> and \<^verbatim>\<open>lastModifiedBy\<close> in the answers and the
  socket events are left out.
\<close>

definition get_route :: "db \<Rightarrow> oid \<Rightarrow> oid \<Rightarrow> candidate response" where
  \<comment> \<open>\<^verbatim>\<open>GET /api/candidates/:id\<close>\<close>
  "get_route d tenant i =
     (case findOne i tenant (candidates d) of
        None \<Rightarrow> fail 404 CandidateNotFound
      | Some c \<Rightarrow> ok None c)"

definition new_candidate :: "oid \<Rightarrow> nat \<Rightarrow> candidate" where
  \<comment> \<open>a fresh document with the defaults of the schema\<close>
  "new_candidate i now =
     \<lparr>doc_id = i, name = [], email = [], phone = [], position = [], stage = ''inbox'',
      source = [], rating = 0, interviewDate = None, interviewTime = None,
      interviewTimeChanged = False, history = [], comments = [], hasResume = False,
      resumeUrl = None, testResults = [], organization = [], createdBy = [],
      lastModifiedBy = None, tags = [], customFields = [], isArchived = False,
      archivedAt = None, archivedBy = None, createdAt = now, updatedAt = now\<rparr>"

definition create_errors :: "runtime \<Rightarrow> field_update list \<Rightarrow> (string \<times> msg) list" where
  "create_errors L body =
     check (body_string ''name'' body \<noteq> []) ''name'' NameRequired @
     check (isEmail L (body_string ''email'' body)) ''email'' EmailInvalid @
     check (body_string ''phone'' body \<noteq> []) ''phone'' PhoneRequired @
     check (body_string ''position'' body \<noteq> []) ''position'' PositionRequired @
     check (body_string ''source'' body \<noteq> []) ''source'' SourceRequired"

definition canAddCandidate :: "org \<Rightarrow> candidate list \<Rightarrow> bool" where
  "canAddCandidate g cs =
     (length (filter (\<lambda>c. organization c = org_id g) cs) < maxCandidates g)"

definition create_route ::
  "runtime \<Rightarrow> db \<Rightarrow> oid \<Rightarrow> user \<Rightarrow> oid \<Rightarrow> field_update list \<Rightarrow> nat
     \<Rightarrow> candidate response \<times> db" where
  \<comment> \<open>\<^verbatim>\<open>POST /api/candidates\<close>; \<open>fresh\<close> is the id the store generates\<close>
  "create_route L d tenant u fresh body now =
     (if create_errors L body \<noteq> [] then (invalid (create_errors L body), d)
      else (case find (\<lambda>g. org_id g = tenant) (organizations d) of
        None \<Rightarrow> (fail 500 ErrorCreatingCandidate, d)
      | Some g \<Rightarrow>
          if \<not> canAddCandidate g (candidates d) then (fail 403 CandidateLimitReached, d)
          else if find (\<lambda>c. email c = body_string ''email'' body \<and> organization c = tenant)
                    (candidates d) \<noteq> None
          then (fail 400 EmailAlreadyRegistered, d)
          else
            let c = (foldl (assign L True) (new_candidate fresh now) body)
                      \<lparr>organization := tenant, createdBy := user_id u,
                       history := [\<lparr>h_user = user_name u, h_action = CandidateCreated,
                                    h_details = None, h_timestamp = now\<rparr>]\<rparr>
            in if \<not> validate c \<or> (\<exists>x \<in> set (candidates d). doc_id x = doc_id c)
               then (fail 500 ErrorCreatingCandidate, d)
               else (Response 201 True (Some CandidateAdded) (Some c) [],
                     d\<lparr>candidates := candidates d @ [c]\<rparr>)))"

definition protected_key :: "string \<Rightarrow> bool" where
  \<comment> \<open>the keys the update loop skips\<close>
  "protected_key k =
     (k = ''history'' \<or> k = ''comments'' \<or> k = ''_id'' \<or> k = ''organization'')"

definition apply_patch :: "runtime \<Rightarrow> candidate \<Rightarrow> field_update list \<Rightarrow> candidate" where
  \<comment> \<open>\<^verbatim>\<open>Object.keys(req.body).forEach(key => ...)\<close>\<close>
  "apply_patch L c body =
     foldl (\<lambda>c u. if \<not> protected_key (key_of u) then assign L False c u else c) c body"

definition update_errors :: "runtime \<Rightarrow> field_update list \<Rightarrow> (string \<times> msg) list" where
  \<comment> \<open>\<^verbatim>\<open>body('email').optional().isEmail()\<close>\<close>
  "update_errors L body =
     (case body_field ''email'' body of
        None \<Rightarrow> []
      | Some e \<Rightarrow> check (isEmail L e) ''email'' EmailInvalid)"

text \<open>
  The handler of the update copies the body, sets \<^verbatim>\<open>lastModifiedBy\<close>, pushes the
  history entry and calls \<^verbatim>\<open>candidate.save()\<close>, all inside \<^verbatim>\<open>try\<close>. A key of the
  body that is copied onto a member of the document (as \<^verbatim>\<open>save\<close>) makes the handler
  throw, and a document that fails \<open>validate\<close> makes \<^verbatim>\<open>save()\<close> reject: in both
  cases the \<^verbatim>\<open>catch\<close> branch answers 500 and nothing is written.
\<close>

fun shadowing :: "runtime \<Rightarrow> field_update \<Rightarrow> bool" where
  "shadowing L (Set_unknown k) =
     (\<not> protected_key k \<and> (k = ''save'' \<or> document_member L k))"
| "shadowing L _ = False"

definition update_document ::
  "runtime \<Rightarrow> candidate \<Rightarrow> user \<Rightarrow> field_update list \<Rightarrow> nat \<Rightarrow> candidate" where
  \<comment> \<open>the document the handler has built when it calls \<^verbatim>\<open>save()\<close>\<close>
  "update_document L c u body now =
     (let c1 = apply_patch L c body;
          c2 = c1\<lparr>lastModifiedBy := Some (user_id u)\<rparr>
      in c2\<lparr>history := history c2 @
               [\<lparr>h_user = user_name u, h_action = InfoEdited, h_details = None,
                 h_timestamp = now\<rparr>]\<rparr>)"

definition update_route ::
  "runtime \<Rightarrow> db \<Rightarrow> oid \<Rightarrow> user \<Rightarrow> oid \<Rightarrow> field_update list \<Rightarrow> nat
     \<Rightarrow> candidate response \<times> db" where
  \<comment> \<open>\<^verbatim>\<open>PUT /api/candidates/:id\<close>\<close>
  "update_route L d tenant u i body now =
     (if update_errors L body \<noteq> [] then (invalid (update_errors L body), d)
      else (case findOne i tenant (candidates d) of
        None \<Rightarrow> (fail 404 CandidateNotFound, d)
      | Some c \<Rightarrow>
          if list_ex (shadowing L) body \<or> \<not> validate (update_document L c u body now)
          then (fail 500 ErrorUpdatingCandidate, d)
          else
            let (c4, cs) = save now (update_document L c u body now) (candidates d)
            in (ok (Some InfoUpdated) c4, d\<lparr>candidates := cs\<rparr>)))"

definition stage_route ::
  "bool \<Rightarrow> db \<Rightarrow> oid \<Rightarrow> user \<Rightarrow> oid \<Rightarrow> string option \<Rightarrow> nat \<Rightarrow> candidate response \<times> db" where
  \<comment> \<open>\<^verbatim>\<open>PUT /api/candidates/:id/stage\<close>; the body holds \<^verbatim>\<open>stage\<close> or not\<close>
  "stage_route io d tenant u i body_stage now =
     (case body_stage of
        None \<Rightarrow> (invalid [(''stage'', NewStageRequired)], d)
      | Some newStage \<Rightarrow>
          if newStage = [] then (invalid [(''stage'', NewStageRequired)], d)
          else (case findOne i tenant (candidates d) of
            None \<Rightarrow> (fail 404 CandidateNotFound, d)
          | Some c \<Rightarrow>
              let oldStage = stage c;
                  (r, cs) = updateStage io newStage u now c (candidates d)
              in (case r of
                    None \<Rightarrow> fail 500 ErrorChangingStage
                  | Some c' \<Rightarrow> ok (Some (StageChangedFromTo oldStage newStage)) c',
                  d\<lparr>candidates := cs\<rparr>)))"

definition comment_route ::
  "db \<Rightarrow> oid \<Rightarrow> user \<Rightarrow> oid \<Rightarrow> string option \<Rightarrow> nat \<Rightarrow> candidate response \<times> db" where
  \<comment> \<open>\<^verbatim>\<open>POST /api/candidates/:id/comments\<close>\<close>
  "comment_route d tenant u i body_text now =
     (case body_text of
        None \<Rightarrow> (invalid [(''text'', CommentTextRequired)], d)
      | Some txt \<Rightarrow>
          if txt = [] then (invalid [(''text'', CommentTextRequired)], d)
          else (case findOne i tenant (candidates d) of
            None \<Rightarrow> (fail 404 CandidateNotFound, d)
          | Some c \<Rightarrow>
              let (c', cs) = addComment u txt now c (candidates d)
              in (ok (Some CommentAdded) c', d\<lparr>candidates := cs\<rparr>)))"

definition archive_route ::
  "db \<Rightarrow> oid \<Rightarrow> user \<Rightarrow> oid \<Rightarrow> nat \<Rightarrow> candidate response \<times> db" where
  \<comment> \<open>\<^verbatim>\<open>PUT /api/candidates/:id/archive\<close>\<close>
  "archive_route d tenant u i now =
     (case findOne i tenant (candidates d) of
        None \<Rightarrow> (fail 404 CandidateNotFound, d)
      | Some c \<Rightarrow>
          if isArchived c then
            let (c', cs) = unarchive u now c (candidates d)
            in (ok (Some CandidateUnarchived) c', d\<lparr>candidates := cs\<rparr>)
          else
            let (c', cs) = archive u now c (candidates d)
            in (ok (Some CandidateArchived) c', d\<lparr>candidates := cs\<rparr>))"


section \<open>The evidence upload\<close>

text \<open>
  \<^verbatim>\<open>POST /api/files/test-result/:candidateId/:testId\<close>. The request carries the file
  multer has stored, or none. \<open>update_first\<close> is the in-place change of the array
  element that \<^verbatim>\<open>find\<close> returned, the first one satisfying the test.
\<close>

record upload =
  originalname :: string
  mimetype :: string
  filename :: string

fun update_first :: "('a \<Rightarrow> bool) \<Rightarrow> ('a \<Rightarrow> 'a) \<Rightarrow> 'a list \<Rightarrow> 'a list" where
  "update_first P f [] = []"
| "update_first P f (x # xs) = (if P x then f x # xs else x # update_first P f xs)"

text \<open>
  The handler assigns an object to \<^verbatim>\<open>file\<close>, a String path. \<open>cast_string\<close> is the
  cast a String path applies to an assigned value: a plain object has no string form,
  the assignment leaves a cast error on the document (\<open>None\<close> below) and
  \<^verbatim>\<open>candidate.save()\<close> rejects.
\<close>

datatype assigned = AnObject file_info | AString string

fun cast_string :: "assigned \<Rightarrow> string option" where
  "cast_string (AString s) = Some s"
| "cast_string (AnObject info) = None"

definition attach_file :: "string \<Rightarrow> assigned \<Rightarrow> candidate \<Rightarrow> candidate option" where
  "attach_file tid v c =
     (case find (\<lambda>t. testId t = tid) (testResults c) of
        Some t \<Rightarrow>
          map_option
            (\<lambda>s. c\<lparr>testResults :=
                     update_first (\<lambda>t. testId t = tid) (\<lambda>t. t\<lparr>test_file := Some s\<rparr>)
                       (testResults c)\<rparr>)
            (cast_string v)
      | None \<Rightarrow>
          map_option
            (\<lambda>s. c\<lparr>testResults := testResults c @
                     [\<lparr>testId = tid, status = review, score = None, test_notes = None,
                       sentDate = None, deadlineHours = None, test_file = Some s,
                       aiSummary = None\<rparr>]\<rparr>)
            (cast_string v))"

definition test_result_route ::
  "db \<Rightarrow> oid \<Rightarrow> oid \<Rightarrow> string \<Rightarrow> upload option \<Rightarrow> nat \<Rightarrow> string response \<times> db" where
  "test_result_route d tenant i tid req_file now =
     (case req_file of
        None \<Rightarrow> (fail 400 TestFileRequired, d)
      | Some f \<Rightarrow>
          (case findOne i tenant (candidates d) of
             None \<Rightarrow> (fail 404 CandidateNotFound, d)
           | Some c \<Rightarrow>
               let fileUrl = ''/uploads/'' @ tenant @ ''/'' @ filename f;
                   info = \<lparr>file_name = originalname f, file_type = mimetype f,
                           file_url = fileUrl, uploadedAt = now\<rparr>
               in (case attach_file tid (AnObject info) c of
                     None \<Rightarrow> (fail 500 ErrorUploadingTestResult, d)
                   | Some c1 \<Rightarrow>
                       if \<not> validate c1 then (fail 500 ErrorUploadingTestResult, d)
                       else
                         let (c', cs) = save now c1 (candidates d)
                         in (ok (Some TestResultUploaded) fileUrl, d\<lparr>candidates := cs\<rparr>))))"

section \<open>The stage settings of a tenant\<close>

text \<open>
  The handlers of \<^verbatim>\<open>routes/settings\<close> that change the stage list, each with its
  \<^verbatim>\<open>isAdmin\<close> middleware.
\<close>

definition findById :: "oid \<Rightarrow> org list \<Rightarrow> org option" where
  "findById i gs = find (\<lambda>g. org_id g = i) gs"

fun save_org :: "org \<Rightarrow> org list \<Rightarrow> org list" where
  "save_org g [] = []"
| "save_org g (h # hs) = (if org_id h = org_id g then g # hs else h # save_org g hs)"

definition truthy :: "string option \<Rightarrow> bool" where
  \<comment> \<open>\<^verbatim>\<open>if (value)\<close> on an optional string\<close>
  "truthy v = (case v of None \<Rightarrow> False | Some x \<Rightarrow> x \<noteq> [])"


definition candidatesInStage :: "db \<Rightarrow> oid \<Rightarrow> string \<Rightarrow> nat" where
  \<comment> \<open>\<^verbatim>\<open>Candidate.countDocuments({organization, stage})\<close>\<close>
  "candidatesInStage d tenant sid =
     length (filter (\<lambda>c. organization c = tenant \<and> stage c = sid) (candidates d))"

definition stage_delete_route ::
  "db \<Rightarrow> oid \<Rightarrow> user \<Rightarrow> string \<Rightarrow> stage_def list response \<times> db" where
  \<comment> \<open>\<^verbatim>\<open>DELETE /api/settings/stages/:id\<close>\<close>
  "stage_delete_route d tenant u sid =
     (if \<not> isAdmin u then (fail 403 AdminsOnly, d)
      else (case findById tenant (organizations d) of
        None \<Rightarrow> (fail 404 OrganizationNotFound, d)
      | Some g \<Rightarrow>
          (case find (\<lambda>s. stage_id s = sid) (stages g) of
             None \<Rightarrow> (fail 404 StageNotFound, d)
           | Some st \<Rightarrow>
               if isCore st then (fail 403 CoreStagesNotDeletable, d)
               else
                 let n = candidatesInStage d tenant sid
                 in if n > 0
                    then (fail 400 (CandidatesInStage n), d)
                    else
                      let g' = g\<lparr>stages := filter (\<lambda>s. stage_id s \<noteq> sid) (stages g)\<rparr>
                      in (ok (Some StageDeleted) (stages g'),
                          d\<lparr>organizations := save_org g' (organizations d)\<rparr>))))"





text \<open>
  The stage list a new organization starts with (the schema default). The titles are
  Persian in the source and glossed here.
\<close>

definition default_stages :: "stage_def list" where
  "default_stages =
     [\<lparr>stage_id = ''inbox'', title = ''Inbox'', isCore = True, color = None, stage_order = 0\<rparr>,
      \<lparr>stage_id = ''screening'', title = ''Screening'', isCore = True, color = None, stage_order = 1\<rparr>,
      \<lparr>stage_id = ''interview-1'', title = ''First interview'', isCore = True, color = None, stage_order = 2\<rparr>,
      \<lparr>stage_id = ''interview-2'', title = ''Second interview'', isCore = False, color = None, stage_order = 3\<rparr>,
      \<lparr>stage_id = ''offer'', title = ''Offer'', isCore = True, color = None, stage_order = 4\<rparr>,
      \<lparr>stage_id = ''hired'', title = ''Hired'', isCore = True, color = None, stage_order = 5\<rparr>,
      \<lparr>stage_id = ''rejected'', title = ''Rejected'', isCore = True, color = None, stage_order = 6\<rparr>,
      \<lparr>stage_id = ''archived'', title = ''Archived'', isCore = True, color = None, stage_order = 7\<rparr>]"


section \<open>Listing candidates\<close>

text \<open>
  \<^verbatim>\<open>GET /api/candidates\<close>. The query string gives optional filters; \<^verbatim>\<open>sortBy\<close>,
  \<^verbatim>\<open>order\<close>, \<^verbatim>\<open>page\<close> and \<^verbatim>\<open>limit\<close> have defaults, and \<^verbatim>\<open>page\<close> and
  \<^verbatim>\<open>limit\<close> are taken as the integers they denote. A filter on \<^verbatim>\<open>stage\<close>,
  \<^verbatim>\<open>position\<close> or \<^verbatim>\<open>source\<close> is set only for a non-empty value; the archive flag
  is always part of the filter. A non-empty \<^verbatim>\<open>search\<close> is handed to the store as the
  pattern of a case-insensitive \<^verbatim>\<open>$regex\<close> on name, e-mail and phone.
\<close>

record list_query =
  q_stage :: "string option"
  q_position :: "string option"
  q_source :: "string option"
  q_search :: "string option"
  q_sortBy :: "string option"
  q_order :: "string option"
  q_page :: "int option"
  q_limit :: "int option"
  q_archived :: "string option"

record page_data =
  items :: "candidate list"
  total :: nat
  page :: int
  pages :: "int option"

definition field_filter :: "string option \<Rightarrow> string \<Rightarrow> bool" where
  \<comment> \<open>\<^verbatim>\<open>if (stage) queryObj.stage = stage\<close>\<close>
  "field_filter wanted actual = (if truthy wanted then actual = the wanted else True)"

definition search_filter :: "(string \<Rightarrow> bool) option \<Rightarrow> candidate \<Rightarrow> bool" where
  \<comment> \<open>the \<^verbatim>\<open>$or\<close> of the three \<^verbatim>\<open>$regex\<close> conditions, when a search is given\<close>
  "search_filter rx c =
     (case rx of None \<Rightarrow> True | Some m \<Rightarrow> m (name c) \<or> m (email c) \<or> m (phone c))"

definition matches_query ::
  "(string \<Rightarrow> bool) option \<Rightarrow> oid \<Rightarrow> list_query \<Rightarrow> candidate \<Rightarrow> bool" where
  "matches_query rx tenant q c =
     (organization c = tenant \<and>
      isArchived c = (q_archived q = Some ''true'') \<and>
      field_filter (q_stage q) (stage c) \<and>
      field_filter (q_position q) (position c) \<and>
      field_filter (q_source q) (source c) \<and>
      search_filter rx c)"

fun insert_doc :: "('a \<Rightarrow> 'a \<Rightarrow> bool) \<Rightarrow> 'a \<Rightarrow> 'a list \<Rightarrow> 'a list" where
  "insert_doc le x [] = [x]"
| "insert_doc le x (y # ys) = (if le x y then x # y # ys else y # insert_doc le x ys)"

fun sort_docs :: "('a \<Rightarrow> 'a \<Rightarrow> bool) \<Rightarrow> 'a list \<Rightarrow> 'a list" where
  "sort_docs le [] = []"
| "sort_docs le (x # xs) = insert_doc le x (sort_docs le xs)"

definition cursor_limit :: "int \<Rightarrow> 'a list \<Rightarrow> 'a list" where
  \<comment> \<open>the store's \<^verbatim>\<open>limit\<close>: \<open>0\<close> is no limit, a negative limit counts as its size\<close>
  "cursor_limit l xs = (if l = 0 then xs else take (nat \<bar>l\<bar>) xs)"

definition page_count :: "nat \<Rightarrow> int \<Rightarrow> int option" where
  \<comment> \<open>\<^verbatim>\<open>Math.ceil(total / limit)\<close>; not a number for the limit \<open>0\<close>\<close>
  "page_count n l = (if l = 0 then None else Some (- ((- int n) div l)))"

definition list_route :: "runtime \<Rightarrow> db \<Rightarrow> oid \<Rightarrow> list_query \<Rightarrow> page_data response" where
  "list_route L d tenant q =
     (let sortBy = (case q_sortBy q of None \<Rightarrow> ''createdAt'' | Some f \<Rightarrow> f);
          order = (case q_order q of None \<Rightarrow> ''desc'' | Some r \<Rightarrow> r);
          pg = (case q_page q of None \<Rightarrow> 1 | Some n \<Rightarrow> n);
          limit = (case q_limit q of None \<Rightarrow> 50 | Some n \<Rightarrow> n);
          pattern = (if truthy (q_search q) then Some (regex_i L (the (q_search q))) else None)
      in (case pattern of
            Some None \<Rightarrow> fail 500 ErrorListingCandidates
          | _ \<Rightarrow>
              let rx = (case pattern of None \<Rightarrow> None | Some m \<Rightarrow> m);
                  found = filter (matches_query rx tenant q) (candidates d);
                  le = (if order = ''desc'' then (\<lambda>a b. field_le L sortBy b a)
                        else field_le L sortBy);
                  skip = (pg - 1) * limit
              in if skip < 0 then fail 500 ErrorListingCandidates
                 else ok None
                        \<lparr>items = cursor_limit limit (drop (nat skip) (sort_docs le found)),
                         total = length found, page = pg,
                         pages = page_count (length found) limit\<rparr>))"

text \<open>
  The specification of the list operation speaks of a name, e-mail or phone that
  contains the search string case-insensitively: \<open>contains_ci\<close> is that reading, on
  ASCII letters.
\<close>

definition ascii_lower :: "char \<Rightarrow> char" where
  "ascii_lower ch =
     (case map_of (zip ''ABCDEFGHIJKLMNOPQRSTUVWXYZ'' ''abcdefghijklmnopqrstuvwxyz'') ch of
        None \<Rightarrow> ch
      | Some l \<Rightarrow> l)"

fun prefix_ci :: "string \<Rightarrow> string \<Rightarrow> bool" where
  "prefix_ci [] t = True"
| "prefix_ci (p # ps) [] = False"
| "prefix_ci (p # ps) (ch # t) = (ascii_lower p = ascii_lower ch \<and> prefix_ci ps t)"

fun contains_ci :: "string \<Rightarrow> string \<Rightarrow> bool" where
  "contains_ci s [] = prefix_ci s []"
| "contains_ci s (ch # t) = (prefix_ci s (ch # t) \<or> contains_ci s t)"

section \<open>A small runtime and example data\<close>

text \<open>
  To run the model on examples the library functions must be concrete: ASCII lower-casing
  and trimming, a validator that only asks for an \<^verbatim>\<open>@\<close>, an ordering by rating or
  by a timestamp, and a regular-expression engine for the patterns made of ordinary
  characters and the wildcard \<^verbatim>\<open>.\<close> (any character but a line feed); it refuses every
  pattern with another metacharacter.
\<close>

definition is_space :: "char \<Rightarrow> bool" where
  "is_space ch = (ch \<in> set [CHR '' '', CHR 0x09, CHR 0x0A, CHR 0x0B, CHR 0x0C, CHR 0x0D])"

definition trim_ascii :: "string \<Rightarrow> string" where
  "trim_ascii s = rev (dropWhile is_space (rev (dropWhile is_space s)))"

definition metachar :: "char \<Rightarrow> bool" where
  "metachar ch = (ch \<in> set ''^$.|?*+()[]{}'' \<or> ch = CHR 0x5C)"

fun dot_here :: "string \<Rightarrow> string \<Rightarrow> bool" where
  "dot_here [] t = True"
| "dot_here (p # ps) [] = False"
| "dot_here (p # ps) (ch # t) =
     ((if p = CHR ''.'' then ch \<noteq> CHR 0x0A else ascii_lower p = ascii_lower ch)
      \<and> dot_here ps t)"

fun dot_search :: "string \<Rightarrow> string \<Rightarrow> bool" where
  "dot_search p [] = dot_here p []"
| "dot_search p (ch # t) = (dot_here p (ch # t) \<or> dot_search p t)"

definition dot_engine :: "string \<Rightarrow> (string \<Rightarrow> bool) option" where
  "dot_engine p =
     (if list_ex (\<lambda>ch. metachar ch \<and> ch \<noteq> CHR ''.'') p then None else Some (dot_search p))"

definition sample_le :: "string \<Rightarrow> candidate \<Rightarrow> candidate \<Rightarrow> bool" where
  "sample_le f a b =
     (if f = ''rating'' then rating a \<le> rating b
      else if f = ''updatedAt'' then updatedAt a \<le> updatedAt b
      else createdAt a \<le> createdAt b)"

definition sample_runtime :: runtime where
  "sample_runtime =
     \<lparr>isEmail = (\<lambda>s. CHR ''@'' \<in> set s), trim = trim_ascii, toLowerCase = map ascii_lower,
      regex_i = dot_engine, field_le = sample_le,
      document_member = (\<lambda>k. k \<in> set [''validate'', ''isNew'', ''_doc''])\<rparr>"

definition admin :: user where
  "admin = \<lparr>user_id = ''u1'', user_name = ''Sara'', username = ''sara'', isAdmin = True\<rparr>"

definition ali :: candidate where
  "ali = (new_candidate ''c1'' 10)
     \<lparr>name := ''Ali Rezaei'', email := ''ali@example.com'', phone := ''0912'',
      position := ''Engineer'', source := ''LinkedIn'', organization := ''orgA'',
      createdBy := ''u1'',
      history := [\<lparr>h_user = ''Sara'', h_action = CandidateCreated, h_details = None,
                   h_timestamp = 10\<rparr>]\<rparr>"

definition bob :: candidate where
  "bob = (new_candidate ''c2'' 11)
     \<lparr>name := ''Bob'', email := ''bob@example.com'', phone := ''0935'',
      position := ''Designer'', source := ''LinkedIn'', organization := ''orgB'',
      createdBy := ''u9''\<rparr>"

definition cyrus :: candidate where
  "cyrus = (new_candidate ''c3'' 12)
     \<lparr>name := ''Cyrus'', email := ''cyrus@example.com'', phone := ''0917'',
      position := ''Engineer'', source := ''LinkedIn'', organization := ''orgA'',
      createdBy := ''u1'', stage := ''archived'', isArchived := True,
      archivedAt := Some 13, archivedBy := Some ''u1''\<rparr>"

definition dana :: candidate where
  "dana = (new_candidate ''c4'' 14)
     \<lparr>name := ''Dana'', email := ''dana@example.com'', phone := ''0921'',
      position := ''Engineer'', source := ''LinkedIn'', organization := ''orgA'',
      createdBy := ''u1'', stage := ''interview-2'',
      testResults := [\<lparr>testId = ''t1'', status = passed, score = Some 90, test_notes = None,
                        sentDate = Some 14, deadlineHours = None, test_file = None,
                        aiSummary = None\<rparr>]\<rparr>"

definition report :: upload where
  "report = \<lparr>originalname = ''report.pdf'', mimetype = ''application/pdf'',
             filename = ''file-1.pdf''\<rparr>"

definition orgA :: org where
  "orgA = \<lparr>org_id = ''orgA'', org_name = ''Acme'',
           stages = default_stages @
             [\<lparr>stage_id = ''assessment'', title = ''Assessment'', isCore = False,
               color = Some ''blue'', stage_order = 8\<rparr>],
           sources = [''LinkedIn''], maxUsers = 5, maxCandidates = 100\<rparr>"

definition store :: db where
  "store = \<lparr>candidates = [ali, bob, cyrus, dana], organizations = [orgA]\<rparr>"


section \<open>Predicates of the statements\<close>

text \<open>
  The archive invariant of the data model: the stage is \<^verbatim>\<open>archived\<close> exactly when the
  archive flag is set.
\<close>

definition archive_consistent :: "candidate \<Rightarrow> bool" where
  "archive_consistent c = ((stage c = ''archived'') = isArchived c)"

definition db_consistent :: "db \<Rightarrow> bool" where
  "db_consistent d = list_all archive_consistent (candidates d)"

definition leaves_archive_fields :: "field_update list \<Rightarrow> bool" where
  \<comment> \<open>a body that sets neither \<^verbatim>\<open>stage\<close> nor \<^verbatim>\<open>isArchived\<close>\<close>
  "leaves_archive_fields body =
     list_all (\<lambda>x. key_of x \<noteq> ''stage'' \<and> key_of x \<noteq> ''isArchived'') body"

definition transition_keeps_flag :: "db \<Rightarrow> oid \<Rightarrow> oid \<Rightarrow> string option \<Rightarrow> bool" where
  \<comment> \<open>the requested stage is \<^verbatim>\<open>archived\<close> exactly when the candidate is archived\<close>
  "transition_keeps_flag d tenant i newStage =
     (case findOne i tenant (candidates d) of
        None \<Rightarrow> True
      | Some c \<Rightarrow> (newStage = Some ''archived'') = isArchived c)"


definition getStages :: "db \<Rightarrow> oid \<Rightarrow> stage_def list option" where
  \<comment> \<open>the stage list \<^verbatim>\<open>GET /api/settings\<close> shows\<close>
  "getStages d tenant = map_option stages (findById tenant (organizations d))"

definition status_of :: "string \<Rightarrow> candidate \<Rightarrow> test_status option" where
  "status_of tid c = map_option status (find (\<lambda>t. testId t = tid) (testResults c))"

definition archive_then_unarchive ::
  "user \<Rightarrow> nat \<Rightarrow> user \<Rightarrow> nat \<Rightarrow> candidate \<Rightarrow> candidate list \<Rightarrow> candidate \<times> candidate list" where
  \<comment> \<open>\<^verbatim>\<open>archive()\<close> followed by \<^verbatim>\<open>unarchive()\<close> on the same document\<close>
  "archive_then_unarchive u now u' now' c cs =
     (let (c1, cs1) = archive u now c cs in unarchive u' now' c1 cs1)"

definition toggle_twice :: "db \<Rightarrow> oid \<Rightarrow> user \<Rightarrow> oid \<Rightarrow> nat \<Rightarrow> nat \<Rightarrow> db" where
  \<comment> \<open>the data base after two successive calls of the archive route\<close>
  "toggle_twice d tenant u i now now' =
     snd (archive_route (snd (archive_route d tenant u i now)) tenant u i now')"

definition search_matcher :: "runtime \<Rightarrow> list_query \<Rightarrow> (string \<Rightarrow> bool) option" where
  \<comment> \<open>the matcher the store compiles for a query, none without a search\<close>
  "search_matcher L q =
     (if truthy (q_search q) then regex_i L (the (q_search q)) else None)"

definition matching :: "runtime \<Rightarrow> db \<Rightarrow> oid \<Rightarrow> list_query \<Rightarrow> candidate list" where
  \<comment> \<open>all candidates that satisfy the filter of a query, whatever the page\<close>
  "matching L d tenant q =
     filter (matches_query (search_matcher L q) tenant q) (candidates d)"

definition search_for :: "string \<Rightarrow> list_query" where
  \<comment> \<open>the query string \<^verbatim>\<open>?search=...\<close>\<close>
  "search_for s =
     \<lparr>q_stage = None, q_position = None, q_source = None, q_search = Some s,
      q_sortBy = None, q_order = None, q_page = None, q_limit = None, q_archived = None\<rparr>"

section \<open>Facts about the store\<close>

lemma findOne_Some:
  "findOne i t cs = Some c \<Longrightarrow> doc_id c = i \<and> organization c = t \<and> c \<in> set cs"
  unfolding findOne_def by (auto simp: find_Some_iff)

lemma findOne_updateOne:
  "findOne i t cs = Some c0 \<Longrightarrow> doc_id c = i \<Longrightarrow> organization c = t
     \<Longrightarrow> findOne i t (updateOne c cs) = Some c"
  by (induction cs) (auto simp: findOne_def split: if_splits)

lemma set_updateOne: "set (updateOne c cs) \<subseteq> insert c (set cs)"
  by (induction cs) auto

lemma updateOne_twice:
  "doc_id c' = doc_id c \<Longrightarrow> updateOne c' (updateOne c cs) = updateOne c' cs"
  by (induction cs) auto

text \<open>The three document methods, with their two writes folded into one.\<close>

lemma updateStage_doc:
  "updateStage io s u now c cs =
     (let c' = c\<lparr>stage := s, lastModifiedBy := Some (user_id u),
                 history := history c @
                   [\<lparr>h_user = display_name u, h_action = StageChangedFromTo (stage c) s,
                     h_details = None, h_timestamp = now\<rparr>],
                 updatedAt := now\<rparr>
      in (if io then Some c' else None, updateOne c' cs))"
  by (simp add: updateStage_def addHistoryEntry_def save_def Let_def)

lemma archive_doc:
  "archive u now c cs =
     (let c' = c\<lparr>isArchived := True, archivedAt := Some now, archivedBy := Some (user_id u),
                 stage := ''archived'',
                 history := history c @
                   [\<lparr>h_user = display_name u, h_action = CandidateArchived,
                     h_details = None, h_timestamp = now\<rparr>],
                 updatedAt := now\<rparr>
      in (c', updateOne c' cs))"
  by (simp add: archive_def addHistoryEntry_def save_def Let_def updateOne_twice)

lemma unarchive_doc:
  "unarchive u now c cs =
     (let c' = c\<lparr>isArchived := False, archivedAt := None, archivedBy := None,
                 stage := ''inbox'',
                 history := history c @
                   [\<lparr>h_user = display_name u, h_action = CandidateUnarchived,
                     h_details = None, h_timestamp = now\<rparr>],
                 updatedAt := now\<rparr>
      in (c', updateOne c' cs))"
  by (simp add: unarchive_def addHistoryEntry_def save_def Let_def updateOne_twice)

text \<open>The example store holds Ali, Cyrus and Dana for tenant \<open>orgA\<close> and Bob for \<open>orgB\<close>.\<close>

lemma store_ali: "findOne ''c1'' ''orgA'' (candidates store) = Some ali"
  by (simp add: findOne_def store_def ali_def new_candidate_def)

lemma store_cyrus: "findOne ''c3'' ''orgA'' (candidates store) = Some cyrus"
  by (simp add: findOne_def store_def ali_def bob_def cyrus_def new_candidate_def)

lemma store_dana: "findOne ''c4'' ''orgA'' (candidates store) = Some dana"
  by (simp add: findOne_def store_def ali_def bob_def cyrus_def dana_def new_candidate_def)

section \<open>Stage transitions\<close>

text \<open>
  C2 (as amended). For every existing candidate of the tenant and every non-empty string
  \<open>newStage\<close>, whether or not it is one of the tenant's stages, the stage route writes a
  candidate whose stage is \<open>newStage\<close> and whose history is the old history followed by
  exactly one entry, the one recording the old and the new stage. This holds whether or
  not the socket handle is there. The empty string is refused by the validator, and
  the stored candidate stays as it was.
\<close>

theorem stage_route_transition:
  assumes "findOne i tenant (candidates d) = Some c"
  shows "\<exists>c'.
           findOne i tenant
             (candidates (snd (stage_route io d tenant u i (Some newStage) now))) = Some c'
           \<and> (if newStage = [] then c' = c
              else stage c' = newStage
                 \<and> (\<exists>e. history c' = history c @ [e]
                        \<and> h_action e = StageChangedFromTo (stage c) newStage))"
proof -
  from assms have k: "doc_id c = i" "organization c = tenant"
    using findOne_Some by blast+
  show ?thesis
    using assms k
    by (simp add: stage_route_def updateStage_doc findOne_updateOne Let_def)
qed

theorem stage_route_transition_witness:
  "stage (the (findOne ''c1'' ''orgA''
      (candidates (snd (stage_route True store ''orgA'' admin ''c1'' (Some ''screening'') 20)))))
     = ''screening''
   \<and> length (history (the (findOne ''c1'' ''orgA''
      (candidates (snd (stage_route True store ''orgA'' admin ''c1'' (Some ''screening'') 20))))))
     = 2"
proof -
  from stage_route_transition [OF store_ali, of True admin "''screening''" 20]
  show ?thesis by (auto simp: ali_def)
qed

text \<open>
  The empty string is a string, and the route refuses it: the validator answers 400
  and the candidate Ali keeps the old stage.
\<close>

theorem stage_route_empty_counterexample:
  "findOne ''c1'' ''orgA''
     (candidates (snd (stage_route True store ''orgA'' admin ''c1'' (Some []) 20))) = Some ali
   \<and> stage ali \<noteq> []
   \<and> http_status (fst (stage_route True store ''orgA'' admin ''c1'' (Some []) 20)) = 400"
  by (simp add: stage_route_def store_ali invalid_def) (simp add: ali_def new_candidate_def)

section \<open>Archiving and restoring\<close>

text \<open>
  C5. For every candidate, in any stage, \<^verbatim>\<open>archive()\<close> followed by \<^verbatim>\<open>unarchive()\<close>
  leaves the stage \<^verbatim>\<open>inbox\<close>, the entry stage, whatever stage the candidate held
  before; the archive flag is false and \<^verbatim>\<open>archivedAt\<close> and \<^verbatim>\<open>archivedBy\<close> are
  cleared. When the document is a stored one, the stored document is the returned one.
\<close>

theorem archive_then_unarchive_inbox:
  "stage (fst (archive_then_unarchive u now u' now' c cs)) = ''inbox''
   \<and> isArchived (fst (archive_then_unarchive u now u' now' c cs)) = False
   \<and> archivedAt (fst (archive_then_unarchive u now u' now' c cs)) = None
   \<and> archivedBy (fst (archive_then_unarchive u now u' now' c cs)) = None
   \<and> (findOne i tenant cs = Some c \<longrightarrow>
        findOne i tenant (snd (archive_then_unarchive u now u' now' c cs))
          = Some (fst (archive_then_unarchive u now u' now' c cs)))"
proof -
  have "findOne i tenant (snd (archive_then_unarchive u now u' now' c cs))
          = Some (fst (archive_then_unarchive u now u' now' c cs))"
    if h: "findOne i tenant cs = Some c"
  proof -
    from h have k: "doc_id c = i" "organization c = tenant"
      using findOne_Some by blast+
    show ?thesis
      using h k
      by (simp add: archive_then_unarchive_def archive_doc unarchive_doc Let_def
            updateOne_twice findOne_updateOne)
  qed
  then show ?thesis
    by (simp add: archive_then_unarchive_def archive_doc unarchive_doc Let_def)
qed

theorem archive_then_unarchive_inbox_witness:
  "stage dana = ''interview-2''
   \<and> stage (fst (archive_then_unarchive admin 20 admin 30 dana (candidates store))) = ''inbox''
   \<and> findOne ''c4'' ''orgA'' (snd (archive_then_unarchive admin 20 admin 30 dana (candidates store)))
       = Some (fst (archive_then_unarchive admin 20 admin 30 dana (candidates store)))"
  using archive_then_unarchive_inbox [of admin 20 admin 30 dana "candidates store" "''c4''" "''orgA''"]
    store_dana
  by (simp add: dana_def)


text \<open>
  C10 (as amended). The archive route is a toggle: on an existing candidate that is not
  archived it archives (flag set, stage \<^verbatim>\<open>archived\<close>), on an archived one it restores
  (flag cleared, stage \<^verbatim>\<open>inbox\<close>). Two successive calls give the candidate the archive
  flag it started with: they never leave archived a candidate that was not archived.
\<close>

theorem archive_route_toggle:
  assumes "findOne i tenant (candidates d) = Some c"
  shows "\<exists>c1 c2.
           findOne i tenant (candidates (snd (archive_route d tenant u i now))) = Some c1
           \<and> isArchived c1 = (\<not> isArchived c)
           \<and> stage c1 = (if isArchived c then ''inbox'' else ''archived'')
           \<and> findOne i tenant (candidates (toggle_twice d tenant u i now now')) = Some c2
           \<and> isArchived c2 = isArchived c"
proof -
  from assms have k: "doc_id c = i" "organization c = tenant"
    using findOne_Some by blast+
  show ?thesis
  proof (cases "isArchived c")
    case True
    then show ?thesis
      using assms k
      by (simp add: toggle_twice_def archive_route_def archive_doc unarchive_doc Let_def
            findOne_updateOne)
  next
    case False
    then show ?thesis
      using assms k
      by (simp add: toggle_twice_def archive_route_def archive_doc unarchive_doc Let_def
            findOne_updateOne)
  qed
qed

theorem archive_route_toggle_witness:
  "isArchived (the (findOne ''c1'' ''orgA'' (candidates (snd (archive_route store ''orgA'' admin ''c1'' 20)))))
   \<and> stage (the (findOne ''c1'' ''orgA'' (candidates (snd (archive_route store ''orgA'' admin ''c1'' 20)))))
       = ''archived''
   \<and> \<not> isArchived (the (findOne ''c1'' ''orgA'' (candidates (toggle_twice store ''orgA'' admin ''c1'' 20 30))))"
  using archive_route_toggle [OF store_ali, of admin 20 30]
  by (auto simp: ali_def new_candidate_def)

text \<open>
  The candidate Cyrus is archived in the example store. Two successive calls restore
  and archive that candidate again: after them the candidate is archived.
\<close>

theorem toggle_twice_counterexample:
  "isArchived cyrus
   \<and> findOne ''c3'' ''orgA'' (candidates store) = Some cyrus
   \<and> isArchived (the (findOne ''c3'' ''orgA'' (candidates (toggle_twice store ''orgA'' admin ''c3'' 20 30))))"
proof -
  have a: "isArchived cyrus" by (simp add: cyrus_def)
  have k: "doc_id cyrus = ''c3''" "organization cyrus = ''orgA''"
    by (simp_all add: cyrus_def new_candidate_def)
  show ?thesis
    using a k store_cyrus
    by (simp add: toggle_twice_def archive_route_def archive_doc unarchive_doc Let_def
          findOne_updateOne)
qed

section \<open>Updating a candidate\<close>



lemma update_route_refused:
  "update_errors L body \<noteq> [] \<Longrightarrow>
     update_route L d tenant u i body now = (invalid (update_errors L body), d)"
  by (simp add: update_route_def)







section \<open>The archive invariant\<close>

lemma assign_archive_fields:
  "key_of x \<noteq> ''stage'' \<Longrightarrow> key_of x \<noteq> ''isArchived'' \<Longrightarrow>
     stage (assign L n c x) = stage c \<and> isArchived (assign L n c x) = isArchived c"
  by (cases x) simp_all

lemma apply_patch_archive_fields:
  "leaves_archive_fields body \<Longrightarrow>
     stage (apply_patch L c body) = stage c \<and>
     isArchived (apply_patch L c body) = isArchived c"
  unfolding apply_patch_def leaves_archive_fields_def
  by (induction body arbitrary: c) (simp_all add: assign_archive_fields)

lemma foldl_assign_archive_fields:
  "leaves_archive_fields body \<Longrightarrow>
     stage (foldl (assign L n) c body) = stage c \<and>
     isArchived (foldl (assign L n) c body) = isArchived c"
  unfolding leaves_archive_fields_def
  by (induction body arbitrary: c) (simp_all add: assign_archive_fields)

lemma consistent_updateOne:
  "list_all archive_consistent cs \<Longrightarrow> archive_consistent c
     \<Longrightarrow> list_all archive_consistent (updateOne c cs)"
  by (induction cs) auto

lemma consistent_found:
  "db_consistent d \<Longrightarrow> findOne i tenant (candidates d) = Some c \<Longrightarrow> archive_consistent c"
  using findOne_Some [of i tenant "candidates d" c]
  by (auto simp: db_consistent_def list_all_iff)

lemma archive_route_consistent:
  assumes "db_consistent d"
  shows "db_consistent (snd (archive_route d tenant u i now))"
proof (cases "findOne i tenant (candidates d)")
  case None
  then show ?thesis using assms by (simp add: archive_route_def)
next
  case (Some c)
  then show ?thesis
    using assms
    by (simp add: archive_route_def archive_doc unarchive_doc Let_def db_consistent_def
          consistent_updateOne archive_consistent_def)
qed

lemma comment_route_consistent:
  assumes "db_consistent d"
  shows "db_consistent (snd (comment_route d tenant u i txt now))"
proof (cases "findOne i tenant (candidates d)")
  case None
  then show ?thesis using assms by (simp add: comment_route_def split: option.splits)
next
  case (Some c)
  with assms have "archive_consistent c" by (rule consistent_found)
  then show ?thesis
    using assms Some
    by (simp add: comment_route_def addComment_def save_def Let_def db_consistent_def
          consistent_updateOne archive_consistent_def split: option.splits)
qed

lemma update_route_consistent:
  assumes "db_consistent d" and "leaves_archive_fields body"
  shows "db_consistent (snd (update_route L d tenant u i body now))"
proof (cases "findOne i tenant (candidates d)")
  case None
  then show ?thesis using assms by (simp add: update_route_def)
next
  case (Some c)
  with assms have "archive_consistent c" by (simp add: consistent_found)
  with assms(2) have "archive_consistent ((update_document L c u body now)\<lparr>updatedAt := now\<rparr>)"
    by (simp add: update_document_def Let_def archive_consistent_def apply_patch_archive_fields)
  with assms(1) have "list_all archive_consistent
      (updateOne ((update_document L c u body now)\<lparr>updatedAt := now\<rparr>) (candidates d))"
    by (simp add: db_consistent_def consistent_updateOne)
  then show ?thesis
    using assms(1) Some
    by (simp add: update_route_def save_def Let_def db_consistent_def)
qed

lemma create_route_consistent:
  assumes "db_consistent d" and "leaves_archive_fields body"
  shows "db_consistent (snd (create_route L d tenant u fresh body now))"
  using assms
  by (simp add: create_route_def Let_def db_consistent_def archive_consistent_def
        foldl_assign_archive_fields new_candidate_def split: option.splits)

lemma stage_route_consistent:
  assumes "db_consistent d" and "transition_keeps_flag d tenant i newStage"
  shows "db_consistent (snd (stage_route io d tenant u i newStage now))"
proof (cases "findOne i tenant (candidates d)")
  case None
  then show ?thesis using assms by (simp add: stage_route_def split: option.splits)
next
  case (Some c)
  with assms have c: "(stage c = ''archived'') = isArchived c"
    using consistent_found [of d i tenant c] by (simp add: archive_consistent_def)
  from assms(2) Some have f: "(newStage = Some ''archived'') = isArchived c"
    by (simp add: transition_keeps_flag_def)
  show ?thesis
  proof (cases newStage)
    case None
    then show ?thesis using assms by (simp add: stage_route_def)
  next
    case (Some s)
    let ?c' = "c\<lparr>stage := s, lastModifiedBy := Some (user_id u),
                 history := history c @
                   [\<lparr>h_user = display_name u, h_action = StageChangedFromTo (stage c) s,
                     h_details = None, h_timestamp = now\<rparr>],
                 updatedAt := now\<rparr>"
    from f Some have "archive_consistent ?c'"
      by (simp add: archive_consistent_def)
    with assms(1) have "list_all archive_consistent (updateOne ?c' (candidates d))"
      by (simp add: db_consistent_def consistent_updateOne)
    then show ?thesis
      using assms(1) Some \<open>findOne i tenant (candidates d) = Some c\<close>
      by (simp add: stage_route_def updateStage_doc Let_def db_consistent_def)
  qed
qed


text \<open>
  C3 (as amended). \<^verbatim>\<open>archive\<close> and \<^verbatim>\<open>unarchive\<close> establish the invariant
  ``the stage is \<^verbatim>\<open>archived\<close> exactly when \<^verbatim>\<open>isArchived\<close> is set'' on any candidate.
  In a data base where every candidate satisfies it, it still holds for every candidate
  after the archive route and after a comment; after a create or an update whose body
  sets neither \<^verbatim>\<open>stage\<close> nor \<^verbatim>\<open>isArchived\<close>; and after a stage transition whose new
  stage is \<^verbatim>\<open>archived\<close> exactly when the candidate is archived already.
\<close>

theorem archive_invariant:
  assumes "db_consistent d"
  shows "archive_consistent (fst (archive u now c cs))
   \<and> archive_consistent (fst (unarchive u now c cs))
   \<and> db_consistent (snd (archive_route d tenant u i now))
   \<and> db_consistent (snd (comment_route d tenant u i txt now))
   \<and> (leaves_archive_fields body \<longrightarrow>
        db_consistent (snd (create_route L d tenant u fresh body now)))
   \<and> (leaves_archive_fields body \<longrightarrow>
        db_consistent (snd (update_route L d tenant u i body now)))
   \<and> (transition_keeps_flag d tenant i newStage \<longrightarrow>
        db_consistent (snd (stage_route io d tenant u i newStage now)))"
  using assms
  by (simp add: archive_route_consistent comment_route_consistent create_route_consistent
        update_route_consistent stage_route_consistent)
     (simp add: archive_doc unarchive_doc Let_def archive_consistent_def)

lemma store_consistent: "db_consistent store"
  by (simp add: db_consistent_def store_def archive_consistent_def ali_def bob_def cyrus_def
        dana_def new_candidate_def)

theorem archive_invariant_witness:
  "db_consistent store
   \<and> db_consistent (snd (archive_route store ''orgA'' admin ''c1'' 20))
   \<and> db_consistent (snd (update_route sample_runtime store ''orgA'' admin ''c1''
        [Set_rating 4] 20))
   \<and> db_consistent (snd (create_route sample_runtime store ''orgA'' admin ''c7''
        [Set_name ''Eve'', Set_email ''eve@example.com'', Set_phone ''0900'',
         Set_position ''Engineer'', Set_source ''LinkedIn''] 20))
   \<and> db_consistent (snd (stage_route True store ''orgA'' admin ''c1'' (Some ''screening'') 20))"
proof -
  have a: "leaves_archive_fields [Set_rating 4]"
    by (simp add: leaves_archive_fields_def)
  have b: "leaves_archive_fields [Set_name ''Eve'', Set_email ''eve@example.com'',
         Set_phone ''0900'', Set_position ''Engineer'', Set_source ''LinkedIn'']"
    by (simp add: leaves_archive_fields_def)
  have c: "transition_keeps_flag store ''orgA'' ''c1'' (Some ''screening'')"
    by (simp add: transition_keeps_flag_def store_ali) (simp add: ali_def new_candidate_def)
  from archive_invariant [OF store_consistent, where tenant = "''orgA''" and i = "''c1''"
      and u = admin and now = 20 and L = sample_runtime and fresh = "''c7''"
      and body = "[Set_rating 4]" and newStage = "Some ''screening''" and io = True]
    archive_invariant [OF store_consistent, where tenant = "''orgA''" and i = "''c1''"
      and u = admin and now = 20 and L = sample_runtime and fresh = "''c7''"
      and body = "[Set_name ''Eve'', Set_email ''eve@example.com'',
         Set_phone ''0900'', Set_position ''Engineer'', Set_source ''LinkedIn'']"]
    a b c store_consistent
  show ?thesis by simp
qed

text \<open>
  Without those conditions the invariant breaks: moving Ali to the stage
  \<^verbatim>\<open>archived\<close>, by the stage route or by a patch, leaves the flag unset, and a patch
  that sets the flag leaves the stage.
\<close>

theorem archive_invariant_counterexample:
  "db_consistent store
   \<and> \<not> db_consistent (snd (stage_route True store ''orgA'' admin ''c1'' (Some ''archived'') 20))
   \<and> \<not> db_consistent (snd (update_route sample_runtime store ''orgA'' admin ''c1''
          [Set_stage ''archived''] 20))
   \<and> \<not> db_consistent (snd (update_route sample_runtime store ''orgA'' admin ''c1''
          [Set_isArchived True] 20))"
  by code_simp

section \<open>Reading a candidate across tenants\<close>

lemma findOne_None_iff:
  "findOne i t cs = None \<longleftrightarrow> (\<forall>c \<in> set cs. doc_id c = i \<longrightarrow> organization c \<noteq> t)"
  unfolding findOne_def by (auto simp: find_None_iff)

lemma findOne_tenant_view:
  "findOne i t cs = findOne i t (filter (\<lambda>c. organization c = t) cs)"
  unfolding findOne_def by (induction cs) auto

lemma get_route_tenant_view:
  "filter (\<lambda>c. organization c = t) (candidates d) = filter (\<lambda>c. organization c = t) (candidates d')
     \<Longrightarrow> get_route d t i = get_route d' t i"
  unfolding get_route_def
  using findOne_tenant_view [of i t "candidates d"] findOne_tenant_view [of i t "candidates d'"]
  by simp

lemma store_bob: "findOne ''c2'' ''orgB'' (candidates store) = Some bob"
  by (simp add: findOne_def store_def ali_def bob_def new_candidate_def)


text \<open>
  C9. When a candidate with the requested id exists but belongs to another tenant, the
  answer to \<^verbatim>\<open>GET /api/candidates/:id\<close> is the answer given by a store in which the id
  does not exist at all: the same 404 with the same body. (Ids are unique in the
  collection.)
\<close>

theorem get_route_cross_tenant:
  assumes "findOne i tenantB (candidates d) = Some c" and "tenantB \<noteq> tenantA"
    and "distinct (map doc_id (candidates d))"
    and "list_all (\<lambda>x. doc_id x \<noteq> i) (candidates d')"
  shows "get_route d tenantA i = get_route d' tenantA i
         \<and> get_route d tenantA i = fail 404 CandidateNotFound"
proof -
  from assms(1) have c: "c \<in> set (candidates d)" "doc_id c = i" "organization c = tenantB"
    using findOne_Some by blast+
  have "findOne i tenantA (candidates d) = None"
  proof -
    have "organization x \<noteq> tenantA" if "x \<in> set (candidates d)" and "doc_id x = i" for x
    proof -
      from assms(3) that c have "x = c"
        by (metis distinct_map inj_onD)
      with c assms(2) show ?thesis by simp
    qed
    then show ?thesis by (simp add: findOne_None_iff)
  qed
  moreover have "findOne i tenantA (candidates d') = None"
    using assms(4) by (simp add: findOne_None_iff list_all_iff)
  ultimately show ?thesis by (simp add: get_route_def)
qed

theorem get_route_cross_tenant_witness:
  "get_route store ''orgB'' ''c2'' = ok None bob
   \<and> get_route store ''orgA'' ''c2'' = get_route (store\<lparr>candidates := [ali]\<rparr>) ''orgA'' ''c2''
   \<and> get_route store ''orgA'' ''c2'' = fail 404 CandidateNotFound"
proof -
  have 1: "(''orgB''::string) \<noteq> ''orgA''" by simp
  have 2: "distinct (map doc_id (candidates store))"
    by (simp add: store_def ali_def bob_def cyrus_def dana_def new_candidate_def)
  have 3: "list_all (\<lambda>x. doc_id x \<noteq> ''c2'') (candidates (store\<lparr>candidates := [ali]\<rparr>))"
    by (simp add: ali_def new_candidate_def)
  have 4: "get_route store ''orgB'' ''c2'' = ok None bob"
    by (simp add: get_route_def store_bob)
  from get_route_cross_tenant [OF store_bob 1 2 3] 4
  show ?thesis by blast
qed

section \<open>Removing a stage\<close>

lemma findById_save_org:
  "findById t gs = Some g \<Longrightarrow> org_id g' = t \<Longrightarrow> findById t (save_org g' gs) = Some g'"
  by (induction gs) (auto simp: findById_def split: if_splits)

lemma store_orgA: "findById ''orgA'' (organizations store) = Some orgA"
  by (simp add: findById_def store_def orgA_def)

lemma count_inbox: "candidatesInStage store ''orgA'' ''inbox'' = 1"
  by (simp add: candidatesInStage_def store_def ali_def bob_def cyrus_def dana_def new_candidate_def)

lemma count_interview2: "candidatesInStage store ''orgA'' ''interview-2'' = 1"
  by (simp add: candidatesInStage_def store_def ali_def bob_def cyrus_def dana_def new_candidate_def)

lemma count_assessment: "candidatesInStage store ''orgA'' ''assessment'' = 0"
  by (simp add: candidatesInStage_def store_def ali_def bob_def cyrus_def dana_def new_candidate_def)


text \<open>
  C6. For an administrator and a stage of the tenant: removing a core stage fails with
  403 and changes nothing; removing a stage that is not core while a candidate of the
  tenant is in it fails with the conflict answer (400, with the count) and leaves the
  data base, the stage list included, unchanged; removing a stage that is not core and
  holds no candidate succeeds, and the stage list shown afterwards is the old one
  without that id.
\<close>

theorem stage_delete_route_cases:
  assumes "isAdmin u" and "findById tenant (organizations d) = Some g"
    and "find (\<lambda>s. stage_id s = sid) (stages g) = Some st"
  shows "(isCore st \<longrightarrow>
            stage_delete_route d tenant u sid = (fail 403 CoreStagesNotDeletable, d))
       \<and> (\<not> isCore st \<and> candidatesInStage d tenant sid > 0 \<longrightarrow>
            stage_delete_route d tenant u sid
              = (fail 400 (CandidatesInStage (candidatesInStage d tenant sid)), d))
       \<and> (\<not> isCore st \<and> candidatesInStage d tenant sid = 0 \<longrightarrow>
            success (fst (stage_delete_route d tenant u sid))
            \<and> http_status (fst (stage_delete_route d tenant u sid)) = 200
            \<and> getStages (snd (stage_delete_route d tenant u sid)) tenant
                 = Some (filter (\<lambda>s. stage_id s \<noteq> sid) (stages g))
            \<and> sid \<notin> stage_id ` set (filter (\<lambda>s. stage_id s \<noteq> sid) (stages g)))"
proof -
  from assms(2) have t: "org_id g = tenant"
    by (auto simp: findById_def find_Some_iff)
  show ?thesis
    using assms t
    by (auto simp: stage_delete_route_def Let_def ok_def getStages_def findById_save_org)
qed

theorem stage_delete_route_cases_witness:
  "stage_delete_route store ''orgA'' admin ''hired'' = (fail 403 CoreStagesNotDeletable, store)
   \<and> stage_delete_route store ''orgA'' admin ''interview-2''
        = (fail 400 (CandidatesInStage 1), store)
   \<and> http_status (fst (stage_delete_route store ''orgA'' admin ''assessment'')) = 200
   \<and> getStages (snd (stage_delete_route store ''orgA'' admin ''assessment'')) ''orgA''
        = Some default_stages"
proof -
  have a: "isAdmin admin" by (simp add: admin_def)
  have h: "find (\<lambda>s. stage_id s = ''hired'') (stages orgA) = Some (default_stages ! 5)"
    by (simp add: orgA_def default_stages_def)
  have i: "find (\<lambda>s. stage_id s = ''interview-2'') (stages orgA) = Some (default_stages ! 3)"
    by (simp add: orgA_def default_stages_def)
  have j: "find (\<lambda>s. stage_id s = ''assessment'') (stages orgA)
             = Some \<lparr>stage_id = ''assessment'', title = ''Assessment'', isCore = False,
                     color = Some ''blue'', stage_order = 8\<rparr>"
    by (simp add: orgA_def default_stages_def)
  have f: "filter (\<lambda>s. stage_id s \<noteq> ''assessment'') (stages orgA) = default_stages"
    by (simp add: orgA_def default_stages_def)
  from stage_delete_route_cases [OF a store_orgA h]
    stage_delete_route_cases [OF a store_orgA i]
    stage_delete_route_cases [OF a store_orgA j]
    count_interview2 count_assessment f
  show ?thesis by (simp add: default_stages_def)
qed

section \<open>Core stages\<close>













section \<open>Attaching evidence to a test result\<close>

text \<open>
  The handler sets the file of the entry, and sets the status \<^verbatim>\<open>review\<close> only in the
  branch that creates the entry: were the assigned value a string, an entry that exists
  would keep its status. The value is an object, the cast fails, and the route writes
  nothing at all.
\<close>

lemma find_update_first:
  "find P xs = Some x \<Longrightarrow> P (f x) \<Longrightarrow> find P (update_first P f xs) = Some (f x)"
  by (induction xs) (auto split: if_splits)

lemma find_append_new: "find P xs = None \<Longrightarrow> P x \<Longrightarrow> find P (xs @ [x]) = Some x"
  by (induction xs) (auto split: if_splits)

lemma attach_file_existing:
  assumes "find (\<lambda>t. testId t = tid) (testResults c) = Some t"
    and "attach_file tid (AString s) c = Some c'"
  shows "status_of tid c' = Some (status t)"
proof -
  from assms(1) have "testId t = tid" by (auto simp: find_Some_iff)
  with assms(1) have "find (\<lambda>t. testId t = tid)
      (update_first (\<lambda>t. testId t = tid) (\<lambda>t. t\<lparr>test_file := Some s\<rparr>) (testResults c))
      = Some (t\<lparr>test_file := Some s\<rparr>)"
    by (intro find_update_first) simp_all
  with assms show ?thesis by (auto simp: status_of_def attach_file_def)
qed

lemma attach_file_new:
  assumes "find (\<lambda>t. testId t = tid) (testResults c) = None"
    and "attach_file tid (AString s) c = Some c'"
  shows "status_of tid c' = Some review"
  using assms by (auto simp: status_of_def attach_file_def find_append_new)

lemma attach_file_object: "attach_file tid (AnObject info) c = None"
  by (simp add: attach_file_def split: option.splits)

lemma test_result_route_writes_nothing:
  "snd (test_result_route d tenant i tid req_file now) = d"
  by (simp add: test_result_route_def attach_file_object Let_def split: option.splits)

lemma test_result_route_found:
  "findOne i tenant (candidates d) = Some c \<Longrightarrow>
     test_result_route d tenant i tid (Some f) now = (fail 500 ErrorUploadingTestResult, d)"
  by (simp add: test_result_route_def attach_file_object Let_def)

text \<open>
  C1. The result of the candidate Dana for test \<^verbatim>\<open>t1\<close> is \<^verbatim>\<open>passed\<close>. An upload of
  evidence for \<^verbatim>\<open>t1\<close> is answered with 500 and writes nothing: the stored status is
  still \<^verbatim>\<open>passed\<close>, not \<^verbatim>\<open>review\<close>. An upload for a test without entry, \<^verbatim>\<open>t2\<close>, is
  answered with 500 as well and creates no entry.
\<close>

theorem test_result_route_keeps_passed:
  "status_of ''t1'' dana = Some passed
   \<and> test_result_route store ''orgA'' ''c4'' ''t1'' (Some report) 20
       = (fail 500 ErrorUploadingTestResult, store)
   \<and> status_of ''t1'' (the (findOne ''c4'' ''orgA''
        (candidates (snd (test_result_route store ''orgA'' ''c4'' ''t1'' (Some report) 20)))))
       = Some passed
   \<and> test_result_route store ''orgA'' ''c4'' ''t2'' (Some report) 20
       = (fail 500 ErrorUploadingTestResult, store)
   \<and> status_of ''t2'' (the (findOne ''c4'' ''orgA''
        (candidates (snd (test_result_route store ''orgA'' ''c4'' ''t2'' (Some report) 20)))))
       = None"
proof -
  have 1: "status_of ''t1'' dana = Some passed" by (simp add: status_of_def dana_def)
  have 2: "status_of ''t2'' dana = None" by (simp add: status_of_def dana_def)
  show ?thesis
    using 1 2 by (simp add: test_result_route_found [OF store_dana] store_dana)
qed

section \<open>Searching the candidate list\<close>

text \<open>
  Sorting and paging only select among the candidates that satisfy the filter, and
  the filter does not look at \<^verbatim>\<open>page\<close> and \<^verbatim>\<open>limit\<close>. \<open>contains_ci\<close> is containment
  up to the case of ASCII letters, and on a pattern without wildcard the example
  engine decides exactly that.
\<close>

lemma set_insert_doc: "set (insert_doc le x xs) = insert x (set xs)"
  by (induction xs) auto

lemma set_sort_docs: "set (sort_docs le xs) = set xs"
  by (induction xs) (simp_all add: set_insert_doc)

lemma length_insert_doc: "length (insert_doc le x xs) = Suc (length xs)"
  by (induction xs) auto

lemma length_sort_docs: "length (sort_docs le xs) = length xs"
  by (induction xs) (simp_all add: length_insert_doc)

lemma set_cursor_limit: "set (cursor_limit l xs) \<subseteq> set xs"
  by (auto simp: cursor_limit_def dest: in_set_takeD)

lemma matches_query_paging:
  "matches_query rx tenant (q\<lparr>q_page := p, q_limit := l\<rparr>) = matches_query rx tenant q"
  by (rule ext) (simp add: matches_query_def)

lemma matching_paging:
  "matching L d tenant (q\<lparr>q_page := p, q_limit := l\<rparr>) = matching L d tenant q"
  by (simp add: matching_def search_matcher_def matches_query_paging)

lemma list_route_success:
  assumes "payload (list_route L d tenant q) = Some pd"
  shows "set (items pd) \<subseteq> set (matching L d tenant q) \<and> total pd = length (matching L d tenant q)"
proof (cases "truthy (q_search q)")
  case True
  show ?thesis
  proof (cases "regex_i L (the (q_search q))")
    case None
    with True assms show ?thesis by (simp add: list_route_def fail_def)
  next
    case (Some m)
    with True assms show ?thesis
      using set_cursor_limit [of _ "drop _ (sort_docs _ (matching L d tenant q))"]
      by (auto simp: list_route_def fail_def ok_def Let_def matching_def search_matcher_def
            set_sort_docs split: if_splits dest!: subsetD [OF set_cursor_limit] in_set_dropD)
  qed
next
  case False
  with assms show ?thesis
    by (auto simp: list_route_def fail_def ok_def Let_def matching_def search_matcher_def
          set_sort_docs split: if_splits dest!: subsetD [OF set_cursor_limit] in_set_dropD)
qed

lemma contains_ci_Nil: "contains_ci [] t"
  by (cases t) simp_all

lemma dot_here_plain: "CHR ''.'' \<notin> set p \<Longrightarrow> dot_here p t = prefix_ci p t"
  by (induction p t rule: prefix_ci.induct) auto

lemma dot_search_plain: "CHR ''.'' \<notin> set p \<Longrightarrow> dot_search p t = contains_ci p t"
  by (induction t) (simp_all add: dot_here_plain)

lemma prefix_ci_iff:
  "prefix_ci s t \<longleftrightarrow> (\<exists>zs. map ascii_lower t = map ascii_lower s @ zs)"
  by (induction s t rule: prefix_ci.induct) auto

lemma contains_ci_iff:
  "contains_ci s t \<longleftrightarrow> (\<exists>ys zs. map ascii_lower t = ys @ map ascii_lower s @ zs)"
proof (induction t)
  case Nil
  then show ?case by (cases s) auto
next
  case (Cons ch t)
  show ?case
  proof
    assume "contains_ci s (ch # t)"
    then consider "prefix_ci s (ch # t)" | "contains_ci s t" by auto
    then show "\<exists>ys zs. map ascii_lower (ch # t) = ys @ map ascii_lower s @ zs"
    proof cases
      case 1
      then obtain zs where "map ascii_lower (ch # t) = map ascii_lower s @ zs"
        using prefix_ci_iff by blast
      then have "map ascii_lower (ch # t) = [] @ map ascii_lower s @ zs" by simp
      then show ?thesis by blast
    next
      case 2
      with Cons obtain ys zs where "map ascii_lower t = ys @ map ascii_lower s @ zs" by blast
      then have "map ascii_lower (ch # t) = (ascii_lower ch # ys) @ map ascii_lower s @ zs"
        by simp
      then show ?thesis by blast
    qed
  next
    assume "\<exists>ys zs. map ascii_lower (ch # t) = ys @ map ascii_lower s @ zs"
    then obtain ys zs where e: "map ascii_lower (ch # t) = ys @ map ascii_lower s @ zs"
      by blast
    show "contains_ci s (ch # t)"
    proof (cases ys)
      case Nil
      with e have "prefix_ci s (ch # t)" using prefix_ci_iff by auto
      then show ?thesis by simp
    next
      case (Cons y ys')
      with e have "map ascii_lower t = ys' @ map ascii_lower s @ zs" by simp
      with Cons.IH have "contains_ci s t" by blast
      then show ?thesis by simp
    qed
  qed
qed


lemma dot_engine_plain:
  "\<not> list_ex metachar s \<Longrightarrow> regex_i sample_runtime s = Some (contains_ci s)"
proof -
  assume h: "\<not> list_ex metachar s"
  then have "CHR ''.'' \<notin> set s" by (auto simp: list_ex_iff metachar_def)
  then have "dot_search s = contains_ci s" by (intro ext) (rule dot_search_plain)
  with h show ?thesis by (auto simp: sample_runtime_def dot_engine_def list_ex_iff)
qed

lemma list_ALI:
  "payload (list_route sample_runtime store ''orgA'' (search_for ''ALI''))
     = Some \<lparr>items = [ali], total = 1, page = 1, pages = Some 1\<rparr>"
  by code_simp


text \<open>
  C8 (as amended). A successful \<^verbatim>\<open>list()\<close> returns only candidates that satisfy the
  filter of the query (tenant, archive flag, stage, position, source, and the search
  string matched as a case-insensitive regular expression against name, e-mail and
  phone), and \<^verbatim>\<open>total\<close> is the number of all candidates that satisfy it; it is the
  same for every \<^verbatim>\<open>page\<close> and \<^verbatim>\<open>limit\<close>. For a search string \<open>s\<close> on which the
  store's matching is containment (an \<open>s\<close> without metacharacters), every returned
  candidate has a name, e-mail or phone that contains \<open>s\<close> case-insensitively.
\<close>

theorem list_route_search_total:
  assumes "payload (list_route L d tenant q) = Some pd"
  shows "set (items pd) \<subseteq> set (matching L d tenant q)
       \<and> total pd = length (matching L d tenant q)
       \<and> (payload (list_route L d tenant (q\<lparr>q_page := p, q_limit := l\<rparr>)) = Some pd'
            \<longrightarrow> total pd' = total pd)
       \<and> (q_search q = Some s \<and> (s \<noteq> [] \<longrightarrow> regex_i L s = Some (contains_ci s))
            \<longrightarrow> list_all (\<lambda>c. contains_ci s (name c) \<or> contains_ci s (email c)
                               \<or> contains_ci s (phone c)) (items pd))"
proof -
  note r = list_route_success [OF assms]
  have 3: "total pd' = total pd"
    if "payload (list_route L d tenant (q\<lparr>q_page := p, q_limit := l\<rparr>)) = Some pd'"
    using list_route_success [OF that] r by (simp add: matching_paging)
  have 4: "list_all (\<lambda>c. contains_ci s (name c) \<or> contains_ci s (email c)
                               \<or> contains_ci s (phone c)) (items pd)"
    if s: "q_search q = Some s" and e: "s \<noteq> [] \<longrightarrow> regex_i L s = Some (contains_ci s)"
  proof (cases "s = []")
    case True
    then show ?thesis by (simp add: contains_ci_Nil list_all_iff)
  next
    case False
    with s e have "search_matcher L q = Some (contains_ci s)"
      by (simp add: search_matcher_def truthy_def)
    then have "contains_ci s (name c) \<or> contains_ci s (email c) \<or> contains_ci s (phone c)"
      if "c \<in> set (matching L d tenant q)" for c
      using that by (simp add: matching_def matches_query_def search_filter_def)
    with r show ?thesis by (auto simp: list_all_iff)
  qed
  from r 3 4 show ?thesis by blast
qed

theorem list_route_search_total_witness:
  "payload (list_route sample_runtime store ''orgA'' (search_for ''ALI''))
     = Some \<lparr>items = [ali], total = 1, page = 1, pages = Some 1\<rparr>
   \<and> length (matching sample_runtime store ''orgA'' (search_for ''ALI'')) = 1
   \<and> (contains_ci ''ALI'' (name ali) \<or> contains_ci ''ALI'' (email ali)
        \<or> contains_ci ''ALI'' (phone ali))"
proof -
  have m: "\<not> list_ex metachar ''ALI''" by (simp add: metachar_def)
  have s: "q_search (search_for ''ALI'') = Some ''ALI''" by (simp add: search_for_def)
  from list_route_search_total [OF list_ALI, where s = "''ALI''"] s dot_engine_plain [OF m] list_ALI
  show ?thesis by simp
qed

text \<open>
  The search string is a pattern, not a literal: \<^verbatim>\<open>a.i\<close> finds Ali, and none of the
  name, e-mail and phone contains \<^verbatim>\<open>a.i\<close>.
\<close>

theorem list_route_wildcard_counterexample:
  "payload (list_route sample_runtime store ''orgA'' (search_for ''a.i''))
     = Some \<lparr>items = [ali], total = 1, page = 1, pages = Some 1\<rparr>
   \<and> \<not> contains_ci ''a.i'' (name ali)
   \<and> \<not> contains_ci ''a.i'' (email ali)
   \<and> \<not> contains_ci ''a.i'' (phone ali)"
  by code_simp

end
